theory Spec2Isabelle
  imports Main "HOL-Library.Word" "HOL-Library.Monad_Syntax"
begin

section \<open>The index file of b\_plus.c\<close>

text \<open>
  The program keeps a B+ tree in one file: a \<open>header_t\<close> record at offset 0 and
  \<open>node_t\<close> records behind it. \<open>word_t\<close> is the 16-bit unsigned type of the
  \<open>MACHINE_16\<close> configuration; \<open>long\<close> file offsets are modelled as \<open>int\<close>
  (no arithmetic on them leaves the range of a \<open>long\<close> for files below 2 GiB).
  The arrays \<open>key[TREE_ORDER]\<close> and \<open>block[TREE_ORDER+1]\<close> are lists of four and
  of five elements.
\<close>

type_synonym word_t = "16 word"

definition TREE_ORDER :: nat where
  "TREE_ORDER = 4"

definition NO_BLOCK :: int where
  "NO_BLOCK = - 1"

record node_t =
  is_leaf :: bool
  keys_used :: word_t
  key :: "word_t list"
  block :: "int list"
  parent_block :: int

record header_t =
  header_size :: nat
  block_size :: nat
  tree_order :: word_t
  root_block :: int

datatype status_t =
  SUCCESS
  | INV_OPT_PTR
  | INV_HEADER_PTR
  | INV_DATA_PTR
  | E_CREATE_FILE
  | E_OPEN_FILE
  | E_CLOSE_FILE
  | E_WRITE_FILE
  | E_READ_FILE
  | E_MOVE_FILE
  | E_NO_MEMORY
  | E_TREE_EMPTY
  | E_INCOMPATIBLE_VERSION

text \<open>
  \<open>sizeof(header_t)\<close> and \<open>sizeof(node_t)\<close> under \<open>MACHINE_16\<close>: \<open>int\<close>,
  \<open>size_t\<close> and the enumeration take 2 bytes, \<open>long\<close> takes 4.
\<close>

definition sizeof_header_t :: nat where
  "sizeof_header_t = 10"

definition sizeof_node_t :: nat where
  "sizeof_node_t = 36"

subsection \<open>The stream\<close>

text \<open>
  An open stream is the header record on disk, the node records behind it and the file
  position in bytes. \<open>options_t\<close> keeps the stream \<open>iop\<close> and the one node buffer
  \<open>p\<close>; its \<open>name\<close> and \<open>file_exists\<close> are arguments of \<open>open_tree\<close> below.
  \<open>insert_value\<close> is only called on an open stream (\<open>main\<close> tests
  \<open>options.iop==NULL\<close> first) and with the addresses of \<open>main\<close>'s own
  \<open>header\<close> and \<open>options\<close>, so its two null-pointer returns cannot be taken.

  A result \<open>None\<close> of a function below means that the model gives no result: the C
  program would index an array out of bounds or touch the file off a record boundary,
  or the fuel of a \<open>while\<close> loop has run out. Failures of the device (a full disk)
  are not modelled, so the \<open>E_WRITE_FILE\<close> returns of \<open>insert_value\<close> have no
  branch here.
\<close>

record file_t =
  f_header :: header_t
  f_nodes :: "node_t list"
  f_pos :: int

record options_t =
  iop :: file_t
  p :: node_t

definition zero_node :: node_t where
  "zero_node = \<lparr>is_leaf = False, keys_used = 0, key = [0, 0, 0, 0],
     block = [0, 0, 0, 0, 0], parent_block = 0\<rparr>"

definition file_size :: "file_t \<Rightarrow> int" where
  "file_size f = int sizeof_header_t + int sizeof_node_t * int (length (f_nodes f))"

definition node_index :: "int \<Rightarrow> nat option" where
  "node_index off =
     (if int sizeof_header_t \<le> off \<and> (off - int sizeof_header_t) mod int sizeof_node_t = 0
      then Some (nat ((off - int sizeof_header_t) div int sizeof_node_t))
      else None)"

text \<open>
  \<open>fseek\<close> fails, and leaves the position where it was, when the new position would
  be negative; it may move past the end of the file.
\<close>

definition fseek_set :: "int \<Rightarrow> options_t \<Rightarrow> options_t" where
  "fseek_set off opt = (if off < 0 then opt else opt\<lparr>iop := (iop opt)\<lparr>f_pos := off\<rparr>\<rparr>)"

definition fseek_set_fails :: "int \<Rightarrow> bool" where
  "fseek_set_fails off \<longleftrightarrow> off < 0"

definition fseek_cur :: "int \<Rightarrow> options_t \<Rightarrow> options_t" where
  "fseek_cur off opt =
     (if f_pos (iop opt) + off < 0 then opt
      else opt\<lparr>iop := (iop opt)\<lparr>f_pos := f_pos (iop opt) + off\<rparr>\<rparr>)"

definition fseek_end :: "options_t \<Rightarrow> options_t" where
  "fseek_end opt = opt\<lparr>iop := (iop opt)\<lparr>f_pos := file_size (iop opt)\<rparr>\<rparr>"

definition ftell :: "options_t \<Rightarrow> int" where
  "ftell opt = f_pos (iop opt)"

text \<open>
  \<open>fread(opt->p,h->block_size,1,opt->iop)\<close>: at or behind the end of the file nothing
  is read and the buffer keeps its content; on a record boundary the record is copied
  into the buffer.
\<close>

definition fread_node :: "header_t \<Rightarrow> options_t \<Rightarrow> options_t option" where
  "fread_node h opt =
     (if block_size h = sizeof_node_t then
        (if file_size (iop opt) \<le> f_pos (iop opt) then Some opt
         else (case node_index (f_pos (iop opt)) of
                 None \<Rightarrow> None
               | Some i \<Rightarrow>
                   Some (opt\<lparr>p := f_nodes (iop opt) ! i,
                     iop := (iop opt)\<lparr>f_pos := f_pos (iop opt) + int sizeof_node_t\<rparr>\<rparr>)))
      else None)"

text \<open>
  \<open>fwrite(opt->p,h->block_size,1,opt->iop)\<close>: writing behind the end of the file
  leaves a gap that reads as zero bytes.
\<close>

definition put_node :: "nat \<Rightarrow> node_t \<Rightarrow> node_t list \<Rightarrow> node_t list" where
  "put_node i n ns =
     (if i < length ns then ns[i := n]
      else ns @ replicate (i - length ns) zero_node @ [n])"

definition fwrite_node :: "header_t \<Rightarrow> options_t \<Rightarrow> options_t option" where
  "fwrite_node h opt =
     (if block_size h = sizeof_node_t then
        (case node_index (f_pos (iop opt)) of
           None \<Rightarrow> None
         | Some i \<Rightarrow>
             Some (opt\<lparr>iop := (iop opt)\<lparr>f_nodes := put_node i (p opt) (f_nodes (iop opt)),
               f_pos := f_pos (iop opt) + int sizeof_node_t\<rparr>\<rparr>))
      else None)"

definition fwrite_header :: "header_t \<Rightarrow> options_t \<Rightarrow> options_t option" where
  "fwrite_header h opt =
     (if f_pos (iop opt) = 0
      then Some (opt\<lparr>iop := (iop opt)\<lparr>f_header := h, f_pos := int sizeof_header_t\<rparr>\<rparr>)
      else None)"

subsection \<open>The loops over the arrays\<close>

text \<open>
  \<open>for(new_pos=0;new_pos<keys_used;++new_pos) if(stop(key[new_pos])) break;\<close>
  The scan of the model also stops at \<open>TREE_ORDER\<close>, where the C loop would read
  behind the array.
\<close>

function first_pos :: "(word_t \<Rightarrow> bool) \<Rightarrow> word_t list \<Rightarrow> nat \<Rightarrow> nat \<Rightarrow> nat" where
  "first_pos stop ks ku n =
     (if n < ku \<and> n < TREE_ORDER \<and> \<not> stop (ks ! n) then first_pos stop ks ku (Suc n) else n)"
  by pat_completeness auto
termination
  by (relation "measure (\<lambda>(stop, ks, ku, n). ku - n)") auto

text \<open>\<open>for(index=hi;index>lo;--index) xs[index]=xs[index-1];\<close>\<close>

definition shift_up :: "nat \<Rightarrow> nat \<Rightarrow> 'a list \<Rightarrow> 'a list" where
  "shift_up hi lo xs = fold (\<lambda>i ys. ys[i := ys ! (i - 1)]) (rev [Suc lo..<Suc hi]) xs"

text \<open>\<open>for(index=lo;index<hi;++index) dst[index-off]=src[index];\<close>\<close>

definition copy_slots :: "nat \<Rightarrow> nat \<Rightarrow> nat \<Rightarrow> 'a list \<Rightarrow> 'a list \<Rightarrow> 'a list" where
  "copy_slots lo hi off src dst = fold (\<lambda>i ys. ys[i - off := src ! i]) [lo..<hi] dst"

subsection \<open>\<open>node_overflow\<close>\<close>

text \<open>
  The loop that sets the parent of the children of the node just written
  (lines 440--447 and 459--466). Its bound \<open>opt->p->keys_used\<close> and the reference
  \<open>opt->p->block[index]\<close> are read from the buffer in every round, and every round
  reads a record into that buffer.
\<close>

function retag_children :: "header_t \<Rightarrow> int \<Rightarrow> nat \<Rightarrow> options_t \<Rightarrow> options_t option" where
  "retag_children h par_block index opt =
     (if index \<le> unat (keys_used (p opt)) then
        (if index \<le> TREE_ORDER then
           do {
             opt1 \<leftarrow> fread_node h (fseek_set (block (p opt) ! index) opt);
             opt2 \<leftarrow> fwrite_node h (fseek_cur (- int (block_size h))
                      (opt1\<lparr>p := (p opt1)\<lparr>parent_block := par_block\<rparr>\<rparr>));
             retag_children h par_block (Suc index) opt2
           }
         else None)
      else Some opt)"
  by pat_completeness auto
termination
  by (relation "measure (\<lambda>(h, par_block, index, opt). Suc TREE_ORDER - index)") auto

text \<open>
  The branch of the root (lines 421--479). The tests at the top are the bounds of the
  arrays: the loops read \<open>key[index]\<close> for \<open>index < keys_used\<close> and
  \<open>temp_block[index]\<close> for \<open>index <= tree_order\<close>, and the root gets
  \<open>temp_key[left_keys]\<close>.
\<close>

definition split_root ::
  "header_t \<Rightarrow> word_t \<Rightarrow> word_t \<Rightarrow> word_t list \<Rightarrow> int list \<Rightarrow> options_t
    \<Rightarrow> (word_t list \<times> int list \<times> options_t) option" where
  "split_root h left_keys right_keys temp_key0 temp_block0 opt =
     (if unat (keys_used (p opt)) \<le> TREE_ORDER \<and> unat left_keys < TREE_ORDER
         \<and> unat (tree_order h) \<le> TREE_ORDER then
        do {
          let temp_key = copy_slots 0 (unat (keys_used (p opt))) 0 (key (p opt)) temp_key0;
          let temp_block =
            copy_slots 0 (Suc (unat (keys_used (p opt)))) 0 (block (p opt)) temp_block0;
          let opt = opt\<lparr>p := (p opt)\<lparr>parent_block := int (header_size h),
            keys_used := left_keys,
            key := copy_slots 0 (unat left_keys) 0 temp_key (key (p opt)),
            block := copy_slots 0 (Suc (unat left_keys)) 0 temp_block (block (p opt))\<rparr>\<rparr>;
          let opt = fseek_end opt;
          let left_block = ftell opt;
          opt \<leftarrow> fwrite_node h opt;
          opt \<leftarrow> retag_children h left_block 0 opt;
          let opt = opt\<lparr>p := (p opt)\<lparr>keys_used := right_keys,
            key := copy_slots (Suc (unat left_keys)) (unat (tree_order h))
                     (Suc (unat left_keys)) temp_key (key (p opt)),
            block := copy_slots (Suc (unat left_keys)) (Suc (unat (tree_order h)))
                     (Suc (unat left_keys)) temp_block (block (p opt))\<rparr>\<rparr>;
          let right_block = ftell opt;
          opt \<leftarrow> fwrite_node h opt;
          opt \<leftarrow> retag_children h right_block 0 opt;
          opt \<leftarrow> fread_node h (fseek_set (int (header_size h)) opt);
          let opt = opt\<lparr>p := (p opt)\<lparr>keys_used := 1, parent_block := NO_BLOCK,
            key := (key (p opt))[0 := temp_key ! unat left_keys],
            block := (block (p opt))[0 := left_block, 1 := right_block]\<rparr>\<rparr>;
          opt \<leftarrow> fwrite_node h (fseek_cur (- int (block_size h)) opt);
          Some (temp_key, temp_block, opt)
        }
      else None)"

text \<open>
  The branch of any other node (lines 480--514): the left part goes back to the block
  of the node, the right part behind the end of the file, and \<open>*temp_key\<close> with the
  new block into the parent. The tests are the bounds of the arrays again: the first
  two loops run up to \<open>keys_used\<close> when they run at all, the next two read
  \<open>temp_key[right_keys]\<close>, and the parent must have a free key slot.
\<close>

definition split_inner ::
  "header_t \<Rightarrow> word_t \<Rightarrow> word_t \<Rightarrow> word_t list \<Rightarrow> int list \<Rightarrow> options_t
    \<Rightarrow> (word_t list \<times> int list \<times> options_t) option" where
  "split_inner h left_keys right_keys temp_key0 temp_block0 opt =
     (if (unat (keys_used (p opt)) < unat left_keys \<or> unat (keys_used (p opt)) \<le> TREE_ORDER)
         \<and> unat right_keys < TREE_ORDER then
        do {
          let temp_key = copy_slots (unat left_keys) (unat (keys_used (p opt))) 0
                (key (p opt)) temp_key0;
          let temp_block = copy_slots (unat left_keys) (Suc (unat (keys_used (p opt)))) 0
                (block (p opt)) temp_block0;
          let opt = fseek_cur (- int (block_size h)) (opt\<lparr>p := (p opt)\<lparr>keys_used := left_keys\<rparr>\<rparr>);
          let left_block = ftell opt;
          opt \<leftarrow> fwrite_node h opt;
          let opt = fseek_end opt;
          let right_block = ftell opt;
          let opt = opt\<lparr>p := (p opt)\<lparr>
            key := copy_slots 1 (Suc (unat right_keys)) 1 temp_key (key (p opt)),
            block := copy_slots 0 (Suc (unat right_keys)) 0 temp_block (block (p opt)),
            keys_used := right_keys\<rparr>\<rparr>;
          opt \<leftarrow> fwrite_node h opt;
          opt \<leftarrow> fread_node h (fseek_set (parent_block (p opt)) opt);
          (if unat (keys_used (p opt)) < TREE_ORDER then
             do {
               let new_pos = first_pos (\<lambda>k. temp_key ! 0 < k) (key (p opt))
                     (unat (keys_used (p opt))) 0;
               let opt = opt\<lparr>p := (p opt)\<lparr>keys_used := keys_used (p opt) + 1\<rparr>\<rparr>;
               let opt = opt\<lparr>p := (p opt)\<lparr>key :=
                 (shift_up (unat (keys_used (p opt) - 1)) new_pos (key (p opt)))
                   [new_pos := temp_key ! 0]\<rparr>\<rparr>;
               let opt = opt\<lparr>p := (p opt)\<lparr>block :=
                 (shift_up (unat (keys_used (p opt))) new_pos (block (p opt)))
                   [Suc new_pos := right_block]\<rparr>\<rparr>;
               opt \<leftarrow> fwrite_node h (fseek_cur (- int (block_size h)) opt);
               Some (temp_key, temp_block, opt)
             }
           else None)
        }
      else None)"

text \<open>The \<open>while(overflow==true)\<close> loop, with fuel.\<close>

fun overflow_loop ::
  "nat \<Rightarrow> header_t \<Rightarrow> word_t \<Rightarrow> word_t \<Rightarrow> word_t list \<Rightarrow> int list \<Rightarrow> options_t
    \<Rightarrow> options_t option" where
  "overflow_loop 0 h left_keys right_keys temp_key temp_block opt = None"
| "overflow_loop (Suc fuel) h left_keys right_keys temp_key temp_block opt =
     (if parent_block (p opt) = NO_BLOCK then
        map_option (\<lambda>(tk, tb, opt'). opt')
          (split_root h left_keys right_keys temp_key temp_block opt)
      else
        (case split_inner h left_keys right_keys temp_key temp_block opt of
           None \<Rightarrow> None
         | Some (tk, tb, opt') \<Rightarrow>
             if keys_used (p opt') < tree_order h then Some opt'
             else overflow_loop fuel h left_keys right_keys tk tb opt'))"

text \<open>
  \<open>rand_high\<close> is the outcome of \<open>rand()>(RAND_MAX>>1U)\<close>; \<open>temp_key\<close> and
  \<open>temp_block\<close> are the two local arrays as the call finds them on the stack (the
  function does not initialise them).
\<close>

definition node_overflow ::
  "nat \<Rightarrow> bool \<Rightarrow> word_t list \<Rightarrow> int list \<Rightarrow> options_t \<Rightarrow> header_t \<Rightarrow> options_t option" where
  "node_overflow fuel rand_high temp_key temp_block opt h =
     (let q = (if rand_high then 0 else 1);
          left_keys = drop_bit 1 (tree_order h) - q;
          right_keys = drop_bit 1 (tree_order h) + q - 1
      in overflow_loop fuel h left_keys right_keys temp_key temp_block opt)"

subsection \<open>\<open>insert_value\<close>\<close>

text \<open>
  The \<open>while(insert==false)\<close> loop (lines 362--390), with fuel. The comparison of
  line 369 reads \<open>key[new_pos]\<close> also when the scan has passed all keys in use, so
  \<open>new_pos\<close> must be below \<open>TREE_ORDER\<close>; storing a key needs a free slot.
\<close>

fun insert_loop ::
  "nat \<Rightarrow> bool \<Rightarrow> word_t list \<Rightarrow> int list \<Rightarrow> header_t \<Rightarrow> word_t \<Rightarrow> options_t
    \<Rightarrow> options_t option" where
  "insert_loop 0 rand_high temp_key temp_block h val opt = None"
| "insert_loop (Suc fuel) rand_high temp_key temp_block h val opt =
     (case fread_node h opt of
        None \<Rightarrow> None
      | Some opt1 \<Rightarrow>
          (let new_pos = first_pos (\<lambda>k. val \<le> k) (key (p opt1)) (unat (keys_used (p opt1))) 0
           in if new_pos < TREE_ORDER then
                (if val = key (p opt1) ! new_pos then Some opt1
                 else if block (p opt1) ! Suc new_pos = NO_BLOCK then
                   (if unat (keys_used (p opt1)) < TREE_ORDER then
                      do {
                        let opt2 = opt1\<lparr>p := (p opt1)\<lparr>keys_used := keys_used (p opt1) + 1\<rparr>\<rparr>;
                        let opt3 = opt2\<lparr>p := (p opt2)\<lparr>key :=
                          (shift_up (unat (keys_used (p opt2) - 1)) new_pos (key (p opt2)))
                            [new_pos := val]\<rparr>\<rparr>;
                        let opt4 = opt3\<lparr>p := (p opt3)\<lparr>block :=
                          (shift_up (unat (keys_used (p opt3))) new_pos (block (p opt3)))
                            [Suc new_pos := NO_BLOCK]\<rparr>\<rparr>;
                        opt5 \<leftarrow> fwrite_node h (fseek_cur (- int (block_size h)) opt4);
                        (if keys_used (p opt5) = tree_order h
                         then node_overflow (Suc fuel) rand_high temp_key temp_block opt5 h
                         else Some opt5)
                      }
                    else None)
                 else insert_loop fuel rand_high temp_key temp_block h val
                        (fseek_set (block (p opt1) ! Suc new_pos) opt1))
              else None))"

definition insert_value ::
  "nat \<Rightarrow> bool \<Rightarrow> word_t list \<Rightarrow> int list \<Rightarrow> header_t \<Rightarrow> options_t \<Rightarrow> word_t
    \<Rightarrow> (status_t \<times> header_t \<times> options_t) option" where
  "insert_value fuel rand_high temp_key temp_block h opt val =
     (if val = 0 then Some (INV_DATA_PTR, h, opt)
      else if TREE_ORDER < unat (tree_order h) then Some (E_INCOMPATIBLE_VERSION, h, opt)
      else if root_block h = NO_BLOCK then
        (if fseek_set_fails 0 then Some (E_MOVE_FILE, h, opt)
         else do {
           let opt1 = fseek_set 0 opt;
           let h1 = h\<lparr>root_block := int (header_size h)\<rparr>;
           opt2 \<leftarrow> fwrite_header h1 opt1;
           let opt3 = opt2\<lparr>p := (p opt2)\<lparr>key := (key (p opt2))[0 := val], keys_used := 1,
             parent_block := NO_BLOCK, is_leaf := False,
             block := fold (\<lambda>index b. b[index := NO_BLOCK])
                        [0..<Suc (unat (tree_order h1))] (block (p opt2))\<rparr>\<rparr>;
           opt4 \<leftarrow> fwrite_node h1 opt3;
           Some (SUCCESS, h1, opt4)
         })
      else
        do {
          opt1 \<leftarrow> insert_loop fuel rand_high temp_key temp_block h val
                    (fseek_set (root_block h) opt);
          Some (SUCCESS, h, opt1)
        })"

subsection \<open>\<open>open_tree\<close> and \<open>main\<close>\<close>

text \<open>
  What \<open>opt->name\<close> names on the disk when \<open>open_tree\<close> runs: nothing, something
  that cannot be opened, a file shorter than a header record, or a header record with
  node records behind it.
\<close>

datatype disk_t = No_File | No_Access | Short_File | Tree_File header_t "node_t list"

text \<open>
  \<open>open_tree\<close> (lines 278--300) returns the status, the header that \<open>h\<close> points to
  afterwards and the stream. After every status but \<open>SUCCESS\<close> \<open>main\<close> leaves the
  program through \<open>error\<close>, so no stream is given then.
\<close>

definition open_tree ::
  "bool \<Rightarrow> header_t \<Rightarrow> disk_t \<Rightarrow> status_t \<times> header_t \<times> file_t option" where
  "open_tree file_exists h disk =
     (if file_exists then
        (case disk of
           No_File \<Rightarrow> (E_OPEN_FILE, h, None)
         | No_Access \<Rightarrow> (E_OPEN_FILE, h, None)
         | Short_File \<Rightarrow> (E_READ_FILE, h, None)
         | Tree_File fh ns \<Rightarrow>
             (SUCCESS, fh, Some \<lparr>f_header = fh, f_nodes = ns, f_pos = int sizeof_header_t\<rparr>))
      else
        (case disk of
           No_Access \<Rightarrow> (E_CREATE_FILE, h, None)
         | _ \<Rightarrow> (SUCCESS, h, Some \<lparr>f_header = h, f_nodes = [], f_pos = int sizeof_header_t\<rparr>)))"

text \<open>The header as \<open>main\<close> fills it (lines 138--141).\<close>

definition main_header :: header_t where
  "main_header = \<lparr>header_size = sizeof_header_t, block_size = sizeof_node_t,
     tree_order = of_nat TREE_ORDER, root_block = NO_BLOCK\<rparr>"

text \<open>
  The state after the menu's CREATE on a new name, with a node buffer of zero bytes
  (\<open>realloc\<close> does not say what the buffer holds).
\<close>

definition created :: options_t where
  "created = \<lparr>iop = \<lparr>f_header = main_header, f_nodes = [], f_pos = int sizeof_header_t\<rparr>,
     p = zero_node\<rparr>"

text \<open>The header and the store after CREATE and the INSERT of 10.\<close>

definition header_10 :: header_t where
  "header_10 = main_header\<lparr>root_block := int sizeof_header_t\<rparr>"

definition node_10 :: node_t where
  "node_10 = \<lparr>is_leaf = False, keys_used = 1, key = [10, 0, 0, 0],
     block = [NO_BLOCK, NO_BLOCK, NO_BLOCK, NO_BLOCK, NO_BLOCK], parent_block = NO_BLOCK\<rparr>"

definition store_10 :: options_t where
  "store_10 = \<lparr>iop = \<lparr>f_header = header_10, f_nodes = [node_10],
     f_pos = int sizeof_header_t + int sizeof_node_t\<rparr>, p = node_10\<rparr>"

text \<open>
  A node buffer as \<open>realloc\<close> may hand it out in a new run of the program: the bytes of
  the leaf flag read as \<open>true\<close>, no key is in use and every block slot reads as
  \<open>NO_BLOCK\<close>.
\<close>

definition flagged_buffer :: node_t where
  "flagged_buffer = \<lparr>is_leaf = True, keys_used = 0, key = [0, 0, 0, 0],
     block = [NO_BLOCK, NO_BLOCK, NO_BLOCK, NO_BLOCK, NO_BLOCK], parent_block = NO_BLOCK\<rparr>"

text \<open>
  The menu's INSERT, once for every value of a list: \<open>main\<close> goes on after
  \<open>SUCCESS\<close> and leaves the program after any other status. Every call draws the same
  \<open>rand_high\<close> and finds zero bytes in the two local arrays of \<open>node_overflow\<close>.
\<close>

fun inserts ::
  "bool \<Rightarrow> word_t list \<Rightarrow> header_t \<times> options_t \<Rightarrow> (header_t \<times> options_t) option" where
  "inserts rand_high [] s = Some s"
| "inserts rand_high (v # vs) (h, opt) =
     (case insert_value 8 rand_high [0, 0, 0, 0] [0, 0, 0, 0, 0] h opt v of
        None \<Rightarrow> None
      | Some (st, h', opt') \<Rightarrow>
          if st = SUCCESS then inserts rand_high vs (h', opt') else Some (h', opt'))"

text \<open>
  The slots of a node that are in use, as the dump lists them (b\_print.c, lines
  192--198): \<open>keys_used\<close> keys and one block reference more.
\<close>

definition used_keys :: "node_t \<Rightarrow> word_t list" where
  "used_keys n = take (unat (keys_used n)) (key n)"

definition used_blocks :: "node_t \<Rightarrow> int list" where
  "used_blocks n = take (Suc (unat (keys_used n))) (block n)"

definition keys_on_disk :: "(header_t \<times> options_t) option \<Rightarrow> word_t list list option" where
  "keys_on_disk s = map_option (\<lambda>(h, opt). map used_keys (f_nodes (iop opt))) s"

definition blocks_on_disk :: "(header_t \<times> options_t) option \<Rightarrow> int list list option" where
  "blocks_on_disk s = map_option (\<lambda>(h, opt). map used_blocks (f_nodes (iop opt))) s"

definition parents_on_disk :: "(header_t \<times> options_t) option \<Rightarrow> int list option" where
  "parents_on_disk s = map_option (\<lambda>(h, opt). map parent_block (f_nodes (iop opt))) s"

subsection \<open>The dump of b\_print.c\<close>

text \<open>
  The line that \<open>print_b_plus_tree\<close> prints for the leaf flag of a record it has read
  (line 188).
\<close>

definition leaf_line :: "node_t \<Rightarrow> string" where
  "leaf_line n = (if is_leaf n then ''>Leaf.'' @ [CHR 0x0A] else ''>Node.'' @ [CHR 0x0A])"

text \<open>
  The loop of \<open>print_b_plus_tree\<close> (lines 185--203), with fuel, as the list of the
  leaf-flag lines it prints: \<open>fread\<close> gives no record when fewer than \<open>block_size\<close>
  bytes are left behind the position, and the loop ends. A record read off a record
  boundary has no value in this model.
\<close>

fun dump_loop :: "nat \<Rightarrow> header_t \<Rightarrow> file_t \<Rightarrow> int \<Rightarrow> string list option" where
  "dump_loop 0 h f pos = None"
| "dump_loop (Suc fuel) h f pos =
     (if file_size f < pos + int (block_size h) then Some []
      else if block_size h = sizeof_node_t then
        (case node_index pos of
           None \<Rightarrow> None
         | Some i \<Rightarrow>
             map_option ((#) (leaf_line (f_nodes f ! i)))
               (dump_loop fuel h f (pos + int (block_size h))))
      else None)"

text \<open>
  \<open>print_b_plus_tree\<close> on a file: \<open>open_b_plus_tree\<close> has read the header of the
  file, and the scan starts with \<open>fseek(opt->iop,h->block_size,SEEK_SET)\<close> (line 183).
\<close>

definition print_b_plus_tree :: "nat \<Rightarrow> file_t \<Rightarrow> string list option" where
  "print_b_plus_tree fuel f = dump_loop fuel (f_header f) f (int (block_size (f_header f)))"

subsection \<open>Lookup\<close>

text \<open>
  Modelled from the spec: the repository has no lookup function (the SEARCH case of
  \<open>main\<close>, lines 188--195, reads a value and does nothing with it). These are the
  outcomes that sections 4.5 and 7 of the specification give to \<open>lookup\<close>.
\<close>

datatype outcome = Found | NotFound | EmptyTree

text \<open>
  Modelled from the spec: the step of the missing lookup at one node (section 4.5, with
  the branch rule of 4.3). Take the smallest index \<open>i\<close> with \<open>keys[i] >= value\<close>,
  or \<open>key_count\<close> if there is none; the result is \<open>Found\<close> on an exact match at
  \<open>i\<close>, \<open>NotFound\<close> when the node has no child at \<open>i\<close>, and otherwise the
  reference \<open>children[i]\<close> to go on with.
\<close>

definition lookup_node :: "node_t \<Rightarrow> word_t \<Rightarrow> (outcome + int) option" where
  "lookup_node n val =
     (let i = first_pos (\<lambda>k. val \<le> k) (key n) (unat (keys_used n)) 0
      in if i < unat (keys_used n) \<and> key n ! i = val then Some (Inl Found)
         else if i \<le> TREE_ORDER then
           (if block n ! i = NO_BLOCK then Some (Inl NotFound) else Some (Inr (block n ! i)))
         else None)"

text \<open>
  Modelled from the spec: the descent of the missing lookup from a block reference, with
  fuel; it reads the node records and changes nothing.
\<close>

fun lookup_loop :: "nat \<Rightarrow> node_t list \<Rightarrow> word_t \<Rightarrow> int \<Rightarrow> outcome option" where
  "lookup_loop 0 ns val ref = None"
| "lookup_loop (Suc fuel) ns val ref =
     (case node_index ref of
        None \<Rightarrow> None
      | Some n \<Rightarrow>
          if n < length ns then
            (case lookup_node (ns ! n) val of
               None \<Rightarrow> None
             | Some (Inl res) \<Rightarrow> Some res
             | Some (Inr child) \<Rightarrow> lookup_loop fuel ns val child)
          else None)"

text \<open>
  Modelled from the spec: the missing \<open>lookup(value)\<close> of section 4.5; \<open>EmptyTree\<close>
  when the header has no root, otherwise the descent from the root.
\<close>

definition lookup :: "nat \<Rightarrow> header_t \<Rightarrow> options_t \<Rightarrow> word_t \<Rightarrow> outcome option" where
  "lookup fuel h opt val =
     (if root_block h = NO_BLOCK then Some EmptyTree
      else lookup_loop fuel (f_nodes (iop opt)) val (root_block h))"

text \<open>The recursive equations of the two functions with a measure are unfolded by hand only.\<close>

declare retag_children.simps [simp del]
declare first_pos.simps [simp del]

section \<open>Properties\<close>

subsection \<open>The first insert\<close>

text \<open>
  C7. The first insert into an empty store writes the header with the root reference
  \<open>header_size\<close> and behind it one record with the inserted value as its only key,
  every child slot \<open>NO_BLOCK\<close> and the parent \<open>NO_BLOCK\<close>. The leaf flag of that
  record is false, although the node has no child; line 188 of the dump makes
  \<open>>Node.\<close> of such a record. Shown for CREATE followed by the INSERT of 10.
\<close>

theorem first_node_flag_not_leaf:
  "insert_value 8 False [0, 0, 0, 0] [0, 0, 0, 0, 0] main_header created 10 =
     Some (SUCCESS,
       \<lparr>header_size = 10, block_size = 36, tree_order = 4, root_block = 10\<rparr>,
       \<lparr>iop = \<lparr>f_header = \<lparr>header_size = 10, block_size = 36, tree_order = 4, root_block = 10\<rparr>,
          f_nodes = [\<lparr>is_leaf = False, keys_used = 1, key = [10, 0, 0, 0],
            block = [- 1, - 1, - 1, - 1, - 1], parent_block = - 1\<rparr>],
          f_pos = 46\<rparr>,
        p = \<lparr>is_leaf = False, keys_used = 1, key = [10, 0, 0, 0],
          block = [- 1, - 1, - 1, - 1, - 1], parent_block = - 1\<rparr>\<rparr>) \<and>
   leaf_line \<lparr>is_leaf = False, keys_used = 1, key = [10, 0, 0, 0],
     block = [- 1, - 1, - 1, - 1, - 1], parent_block = - 1\<rparr> = ''>Node.'' @ [CHR 0x0A]"
  by code_simp

subsection \<open>The value 0 and the tree order\<close>

text \<open>
  C9. \<open>insert_value\<close> compares the value with \<open>NULL\<close> (line 334), so for the value
  0, which the prompt of \<open>read_word_t\<close> offers as the lower end of the range, it returns
  \<open>INV_DATA_PTR\<close> and leaves the header, the stream and the buffer as they were,
  in every state.
\<close>

theorem insert_zero_rejected:
  "insert_value fuel rand_high tk tb h opt 0 = Some (INV_DATA_PTR, h, opt)"
  by (simp add: insert_value_def)

lemma insert_incompatible_only_if:
  assumes "insert_value fuel rand_high tk tb h opt val = Some (E_INCOMPATIBLE_VERSION, h', opt')"
  shows "val \<noteq> 0 \<and> TREE_ORDER < unat (tree_order h) \<and> h' = h \<and> opt' = opt"
proof -
  consider (zero) "val = 0" | (order) "val \<noteq> 0" "TREE_ORDER < unat (tree_order h)"
    | (first) "val \<noteq> 0" "\<not> TREE_ORDER < unat (tree_order h)" "root_block h = NO_BLOCK"
    | (loop) "val \<noteq> 0" "\<not> TREE_ORDER < unat (tree_order h)" "root_block h \<noteq> NO_BLOCK"
    by metis
  then show ?thesis
  proof cases
    case zero
    with assms show ?thesis by (simp add: insert_value_def)
  next
    case order
    with assms show ?thesis by (simp add: insert_value_def)
  next
    case first
    with assms show ?thesis
      by (simp add: insert_value_def fseek_set_fails_def Let_def bind_eq_Some_conv)
  next
    case loop
    with assms show ?thesis
      by (simp add: insert_value_def bind_eq_Some_conv)
  qed
qed

lemma open_tree_never_incompatible:
  "fst (open_tree file_exists h0 disk) \<noteq> E_INCOMPATIBLE_VERSION"
  by (cases disk) (simp_all add: open_tree_def)

text \<open>
  C8, as amended. No call of \<open>open_tree\<close> returns \<open>E_INCOMPATIBLE_VERSION\<close>: it does
  not look at the stored order, and opening a file with a readable header returns
  \<open>SUCCESS\<close> and takes the stored header, whatever its order is. The order is
  compared by \<open>insert_value\<close> alone, behind the test of the value 0, and one way only:
  the call returns \<open>E_INCOMPATIBLE_VERSION\<close> exactly when the value is not 0 and the
  order of the header is greater than \<open>TREE_ORDER\<close>, and then before any access to the
  file, with header, stream and buffer as they were. So an order below \<open>TREE_ORDER\<close>
  is reported by no operation.
\<close>

theorem order_checked_by_insert_only:
  "fst (open_tree file_exists h0 disk) \<noteq> E_INCOMPATIBLE_VERSION \<and>
   open_tree True h0 (Tree_File fh ns) =
     (SUCCESS, fh, Some \<lparr>f_header = fh, f_nodes = ns, f_pos = int sizeof_header_t\<rparr>) \<and>
   (val \<noteq> 0 \<and> TREE_ORDER < unat (tree_order h) \<longrightarrow>
      insert_value fuel rand_high tk tb h opt val = Some (E_INCOMPATIBLE_VERSION, h, opt)) \<and>
   (insert_value fuel rand_high tk tb h opt val = Some (E_INCOMPATIBLE_VERSION, h', opt') \<longrightarrow>
      val \<noteq> 0 \<and> TREE_ORDER < unat (tree_order h) \<and> h' = h \<and> opt' = opt)"
proof (intro conjI impI)
  show "fst (open_tree file_exists h0 disk) \<noteq> E_INCOMPATIBLE_VERSION"
    by (rule open_tree_never_incompatible)
  show "open_tree True h0 (Tree_File fh ns) =
     (SUCCESS, fh, Some \<lparr>f_header = fh, f_nodes = ns, f_pos = int sizeof_header_t\<rparr>)"
    by (simp add: open_tree_def)
  show "insert_value fuel rand_high tk tb h opt val = Some (E_INCOMPATIBLE_VERSION, h, opt)"
    if "val \<noteq> 0 \<and> TREE_ORDER < unat (tree_order h)"
    using that by (simp add: insert_value_def)
  show "val \<noteq> 0" "TREE_ORDER < unat (tree_order h)" "h' = h" "opt' = opt"
    if "insert_value fuel rand_high tk tb h opt val = Some (E_INCOMPATIBLE_VERSION, h', opt')"
    using insert_incompatible_only_if [OF that] by simp_all
qed

text \<open>
  An instance: the file of a program built with the order 5 (its records take 42
  bytes), created and never inserted into, is opened with \<open>SUCCESS\<close>, and the INSERT of
  10 is the call that returns \<open>E_INCOMPATIBLE_VERSION\<close>.
\<close>

theorem order_checked_by_insert_only_witness:
  "(10 :: word_t) \<noteq> 0 \<and>
   TREE_ORDER < unat (tree_order
     \<lparr>header_size = 10, block_size = 42, tree_order = 5, root_block = NO_BLOCK\<rparr>) \<and>
   open_tree True main_header
     (Tree_File \<lparr>header_size = 10, block_size = 42, tree_order = 5, root_block = NO_BLOCK\<rparr> []) =
     (SUCCESS, \<lparr>header_size = 10, block_size = 42, tree_order = 5, root_block = NO_BLOCK\<rparr>,
      Some \<lparr>f_header = \<lparr>header_size = 10, block_size = 42, tree_order = 5,
        root_block = NO_BLOCK\<rparr>, f_nodes = [], f_pos = int sizeof_header_t\<rparr>) \<and>
   insert_value 8 False [0, 0, 0, 0] [0, 0, 0, 0, 0]
     \<lparr>header_size = 10, block_size = 42, tree_order = 5, root_block = NO_BLOCK\<rparr>
     \<lparr>iop = \<lparr>f_header = \<lparr>header_size = 10, block_size = 42, tree_order = 5,
        root_block = NO_BLOCK\<rparr>, f_nodes = [], f_pos = int sizeof_header_t\<rparr>, p = zero_node\<rparr> 10 =
     Some (E_INCOMPATIBLE_VERSION,
       \<lparr>header_size = 10, block_size = 42, tree_order = 5, root_block = NO_BLOCK\<rparr>,
       \<lparr>iop = \<lparr>f_header = \<lparr>header_size = 10, block_size = 42, tree_order = 5,
          root_block = NO_BLOCK\<rparr>, f_nodes = [], f_pos = int sizeof_header_t\<rparr>, p = zero_node\<rparr>)"
proof -
  have a: "(10 :: word_t) \<noteq> 0 \<and> TREE_ORDER < unat (tree_order
     \<lparr>header_size = 10, block_size = 42, tree_order = 5, root_block = NO_BLOCK\<rparr>)"
    by (simp add: TREE_ORDER_def)
  from order_checked_by_insert_only [of True main_header "No_File"
      "\<lparr>header_size = 10, block_size = 42, tree_order = 5, root_block = NO_BLOCK\<rparr>" "[]" 10
      "\<lparr>header_size = 10, block_size = 42, tree_order = 5, root_block = NO_BLOCK\<rparr>"] a
  show ?thesis by simp
qed

text \<open>
  C8 as stated fails: the program has the order 4, and the files of programs built with
  the order 3 (records of 30 bytes) and with the order 5 (records of 42 bytes), created
  and never inserted into, are both opened with \<open>SUCCESS\<close>.
\<close>

theorem differing_order_opened:
  "fst (open_tree True main_header (Tree_File
      \<lparr>header_size = 10, block_size = 30, tree_order = 3, root_block = NO_BLOCK\<rparr> [])) = SUCCESS \<and>
   fst (open_tree True main_header (Tree_File
      \<lparr>header_size = 10, block_size = 42, tree_order = 5, root_block = NO_BLOCK\<rparr> [])) = SUCCESS \<and>
   tree_order main_header = 4"
  by code_simp

subsection \<open>A value that is there already\<close>

text \<open>
  C2. After the INSERTs of 10, 20, 30 and 40 the value 10 is a key of the second record,
  the root's child 0. The INSERT of 10 does not find it: the descent goes into child 1,
  meets no 10 there and stores 10 a second time, so the file is changed; the call
  returns \<open>SUCCESS\<close>, the one status \<open>status_t\<close> has for both exits of the loop. This
  holds for both outcomes of \<open>rand\<close> at the root split.
\<close>

theorem present_value_inserted_again:
  "(case inserts False [10, 20, 30, 40] (main_header, created) of
      None \<Rightarrow> False
    | Some (h, opt) \<Rightarrow>
        10 \<in> set (used_keys (f_nodes (iop opt) ! 1)) \<and>
        (case insert_value 8 False [0, 0, 0, 0] [0, 0, 0, 0, 0] h opt 10 of
           None \<Rightarrow> False
         | Some (st, h', opt') \<Rightarrow>
             st = SUCCESS \<and> f_nodes (iop opt') \<noteq> f_nodes (iop opt) \<and>
             map used_keys (f_nodes (iop opt')) = [[20], [10], [10, 30, 40]])) \<and>
   (case inserts True [10, 20, 30, 40] (main_header, created) of
      None \<Rightarrow> False
    | Some (h, opt) \<Rightarrow>
        10 \<in> set (used_keys (f_nodes (iop opt) ! 1)) \<and>
        (case insert_value 8 True [0, 0, 0, 0] [0, 0, 0, 0, 0] h opt 10 of
           None \<Rightarrow> False
         | Some (st, h', opt') \<Rightarrow>
             st = SUCCESS \<and> f_nodes (iop opt') \<noteq> f_nodes (iop opt) \<and>
             map used_keys (f_nodes (iop opt')) = [[30], [10, 20], [10, 40]]))"
  by code_simp

subsection \<open>Descent and splits on the store of the scenario\<close>

text \<open>
  C3. After the INSERTs of 10, 20, 30 and 40 the root holds one key \<open>k\<close> (20 or 30,
  as \<open>rand\<close> falls), its child 0 the keys below \<open>k\<close> and its child 1 the keys above.
  For the value 5 the position found in the root is 0, and the insert does not go
  into child 0: it goes on in \<open>block[new_pos+1]\<close>, child 1, and stores 5 among the
  keys above \<open>k\<close>.
\<close>

theorem descent_enters_next_child:
  "keys_on_disk (inserts False [10, 20, 30, 40] (main_header, created)) =
     Some [[20], [10], [30, 40]] \<and>
   blocks_on_disk (inserts False [10, 20, 30, 40] (main_header, created)) =
     Some [[46, 82], [- 1, - 1], [- 1, - 1, - 1]] \<and>
   keys_on_disk (inserts False [10, 20, 30, 40, 5] (main_header, created)) =
     Some [[20], [10], [5, 30, 40]] \<and>
   keys_on_disk (inserts True [10, 20, 30, 40] (main_header, created)) =
     Some [[30], [10, 20], [40]] \<and>
   blocks_on_disk (inserts True [10, 20, 30, 40] (main_header, created)) =
     Some [[46, 82], [- 1, - 1, - 1], [- 1, - 1]] \<and>
   keys_on_disk (inserts True [10, 20, 30, 40, 5] (main_header, created)) =
     Some [[30], [10, 20], [5, 40]]"
  by code_simp

text \<open>
  C1. The program has no lookup; with the lookup of the specification, which follows
  \<open>children[i]\<close>, the value 5 is not found after the INSERTs of 10, 20, 30, 40 and 5,
  whatever \<open>rand\<close> draws, although 5 is a key of the third record: \<open>insert_value\<close> has
  put it into the wrong child.
\<close>

theorem lookup_misses_inserted_value:
  "keys_on_disk (inserts False [10, 20, 30, 40, 5] (main_header, created)) =
     Some [[20], [10], [5, 30, 40]] \<and>
   map_option (\<lambda>(h, opt). lookup 8 h opt 5)
     (inserts False [10, 20, 30, 40, 5] (main_header, created)) = Some (Some NotFound) \<and>
   keys_on_disk (inserts True [10, 20, 30, 40, 5] (main_header, created)) =
     Some [[30], [10, 20], [5, 40]] \<and>
   map_option (\<lambda>(h, opt). lookup 8 h opt 5)
     (inserts True [10, 20, 30, 40, 5] (main_header, created)) = Some (Some NotFound)"
  by code_simp

text \<open>
  C5. The INSERT of 6 after those of 10, 20, 30, 40 and 5 (with \<open>rand()\<close> not above
  \<open>RAND_MAX>>1\<close>) fills the record at offset 82, which is not the root, with the keys
  5, 6, 30 and 40. Its split keeps 5 on the left, writes 6 and 30 to the new record and
  promotes \<open>temp_key[0]\<close>, a slot that this call of \<open>node_overflow\<close> never assigns
  (here it reads as 0): afterwards 40 is a key of no record and 0 is a key of one.
\<close>

theorem inner_split_loses_key:
  "keys_on_disk (inserts False [10, 20, 30, 40, 5] (main_header, created)) =
     Some [[20], [10], [5, 30, 40]] \<and>
   keys_on_disk (inserts False [10, 20, 30, 40, 5, 6] (main_header, created)) =
     Some [[20], [10], [0, 5], [6, 30]]"
  by code_simp

text \<open>
  C4. Two INSERTs later, of 7 and 8, the record at offset 82 overflows again. Its child
  at offset 118 goes into slot 1 of the new right record, which is appended at offset
  154; the parent reference of the record at 118 is still 82 afterwards. The branch of
  the root sets the parent of the children it moves, this branch does not.
\<close>

theorem moved_child_keeps_old_parent:
  "blocks_on_disk (inserts False [10, 20, 30, 40, 5, 6, 7] (main_header, created)) =
     Some [[46, 82], [- 1, - 1], [- 1, 118, - 1, - 1], [0, - 1, - 1]] \<and>
   blocks_on_disk (inserts False [10, 20, 30, 40, 5, 6, 7, 8] (main_header, created)) =
     Some [[46, 82], [- 1, - 1], [- 1, 118, 154], [0, - 1, - 1], [0, 118, - 1]] \<and>
   parents_on_disk (inserts False [10, 20, 30, 40, 5, 6, 7, 8] (main_header, created)) =
     Some [- 1, 46, 82, 82, 82]"
  by code_simp

text \<open>
  C6. With \<open>rand()\<close> above \<open>RAND_MAX>>1\<close> the INSERTs of 10 to 60 leave a root with the
  keys 30, 50 and 60 and two children, and the INSERT of 70 splits the root a second
  time. That split appends one record, not two: the loop over the children of the left
  half reads every child into the one buffer and leaves the file position behind the
  last record it rewrote, which is where the left half was written, so the right half
  overwrites the left half. The root ends with the key 60 and the reference 118 in both
  child slots, and the keys 30 and 50 are in no record.
\<close>

theorem second_root_split_appends_one_block:
  "keys_on_disk (inserts True [10, 20, 30, 40, 50, 60] (main_header, created)) =
     Some [[30, 50, 60], [10, 20], [40]] \<and>
   keys_on_disk (inserts True [10, 20, 30, 40, 50, 60, 70] (main_header, created)) =
     Some [[60], [10, 20], [40], [70]] \<and>
   blocks_on_disk (inserts True [10, 20, 30, 40, 50, 60, 70] (main_header, created)) =
     Some [[118, 118], [- 1, - 1, - 1], [- 1, - 1], [- 1, - 1]]"
  by code_simp

subsection \<open>The leaf flag on disk and in the dump\<close>

text \<open>
  C10. Two runs of the program against the claim. The dump of the store after CREATE
  and the INSERT of 10 prints no line at all: its scan starts at the offset
  \<open>block_size\<close>, 36, inside the only record (offsets 10 to 45), where fewer than 36
  bytes are left. And a record with the leaf flag set is written: a new run opens that
  file, so the header in memory has the root reference 10; CREATE writes this header
  to a new file, since \<open>main\<close> fills the header once only; the INSERT of 20 then takes
  the branch of a tree with a root, reads nothing behind the end of the new file and
  writes the buffer as \<open>realloc\<close> left it, with its leaf flag (here \<open>flagged_buffer\<close>).
\<close>

theorem leaf_flag_set_and_dump_silent:
  "insert_value 8 False [0, 0, 0, 0] [0, 0, 0, 0, 0] main_header created 10 =
     Some (SUCCESS, header_10, store_10) \<and>
   print_b_plus_tree 8 (iop store_10) = Some [] \<and>
   open_tree True main_header (Tree_File header_10 [node_10]) =
     (SUCCESS, header_10, Some \<lparr>f_header = header_10, f_nodes = [node_10], f_pos = 10\<rparr>) \<and>
   open_tree False header_10 No_File =
     (SUCCESS, header_10, Some \<lparr>f_header = header_10, f_nodes = [], f_pos = 10\<rparr>) \<and>
   insert_value 8 False [0, 0, 0, 0] [0, 0, 0, 0, 0] header_10
     \<lparr>iop = \<lparr>f_header = header_10, f_nodes = [], f_pos = 10\<rparr>, p = flagged_buffer\<rparr> 20 =
     Some (SUCCESS, header_10,
       \<lparr>iop = \<lparr>f_header = header_10,
          f_nodes = [\<lparr>is_leaf = True, keys_used = 1, key = [20, 0, 0, 0],
            block = [- 1, - 1, - 1, - 1, - 1], parent_block = - 1\<rparr>],
          f_pos = 46\<rparr>,
        p = \<lparr>is_leaf = True, keys_used = 1, key = [20, 0, 0, 0],
          block = [- 1, - 1, - 1, - 1, - 1], parent_block = - 1\<rparr>\<rparr>)"
  by code_simp

end
